theory Spec2Isabelle
  imports Main "HOL-Library.Finite_Map"
begin

section \<open>The value model of main.cpp\<close>

text \<open>
  \<^verbatim>\<open>JSONObject\<close> wraps a \<^verbatim>\<open>std::variant\<close> of seven alternatives:
  \<^verbatim>\<open>nullptr_t, bool, int, double, std::string, JSONList, JSONDict\<close>.
  \<^verbatim>\<open>JSONList\<close> is a \<^verbatim>\<open>std::vector\<close> (a list) and \<^verbatim>\<open>JSONDict\<close> a
  \<^verbatim>\<open>std::unordered_map\<close> from strings (a finite map: one entry per key, no order).

  The \<^verbatim>\<open>int\<close> payload is only ever produced by \<^verbatim>\<open>std::from_chars\<close>, which
  rejects values outside the 32-bit range, so it is an \<open>int\<close> with that range check
  written out in \<open>from_chars_int\<close>. The \<^verbatim>\<open>double\<close> payload is the type parameter
  \<open>'d\<close>: the only doubles of the program are the ones \<^verbatim>\<open>std::from_chars\<close> of
  the C++ library returns, and that conversion is a parameter of \<open>parse\<close> below.
\<close>

datatype 'd JSONObject =
    JNull
  | JBool bool
  | JInt int
  | JDouble 'd
  | JString string
  | JList "'d JSONObject list"
  | JDict "(string, 'd JSONObject) fmap"

section \<open>Characters\<close>

definition NUL :: char where "NUL = CHR 0x00"
definition BEL :: char where "BEL = CHR 0x07"
definition BS :: char where "BS = CHR 0x08"
definition TAB :: char where "TAB = CHR 0x09"
definition LF :: char where "LF = CHR 0x0A"
definition VT :: char where "VT = CHR 0x0B"
definition FF :: char where "FF = CHR 0x0C"
definition CR :: char where "CR = CHR 0x0D"
definition DQUOTE :: char where "DQUOTE = CHR 0x22"
definition BSLASH :: char where "BSLASH = CHR 0x5C"

section \<open>The library calls parse makes\<close>

subsection \<open>std::from_chars and try_parse_num\<close>

text \<open>
  \<^verbatim>\<open>std::from_chars\<close> returns a pointer past the characters it used and an error
  code; here the pointer is an offset into the text and the converted value comes with
  the code \<^verbatim>\<open>std::errc()\<close> (\<open>Inr\<close>).
\<close>

datatype errc = invalid_argument | result_out_of_range

type_synonym 'a from_chars = "string \<Rightarrow> (errc + 'a) \<times> nat"

definition is_digit :: "char \<Rightarrow> bool" where
  "is_digit c = (48 \<le> (of_char c :: nat) \<and> (of_char c :: nat) \<le> 57)"

definition digits_val :: "string \<Rightarrow> int" where
  "digits_val ds = foldl (\<lambda>a c. 10 * a + (int (of_char c) - 48)) 0 ds"

text \<open>
  The integer overload in base 10: an optional minus sign (no plus sign), then as many
  digits as there are. No digit is \<^verbatim>\<open>invalid_argument\<close> with the pointer at the start;
  a value that does not fit \<^verbatim>\<open>int\<close> is \<^verbatim>\<open>result_out_of_range\<close> with the pointer past
  the digits.
\<close>

definition from_chars_int :: "int from_chars" where
  "from_chars_int s =
     (let neg = (s \<noteq> [] \<and> hd s = CHR ''-'');
          r = (if neg then tl s else s);
          ds = takeWhile is_digit r;
          p = (if neg then 1 else 0) + length ds;
          v = (if neg then - digits_val ds else digits_val ds)
      in if ds = [] then (Inl invalid_argument, 0)
         else if v < - (2 ^ 31) \<or> 2 ^ 31 - 1 < v then (Inl result_out_of_range, p)
         else (Inr v, p))"

text \<open>
  \<^verbatim>\<open>
  template <class T>
  std::optional<T> try_parse_num(std::string_view str) {
      T value;
      auto res = std::from_chars(str.data(), str.data() + str.size(), value);
      if (res.ec == std::errc() && res.ptr == str.data() + str.size()) return value;
      return std::nullopt;
  }
  \<close>
\<close>

definition try_parse_num :: "'a from_chars \<Rightarrow> string \<Rightarrow> 'a option" where
  "try_parse_num fc str =
     (case fc str of
        (Inr v, p) \<Rightarrow> if p = length str then Some v else None
      | (Inl e, p) \<Rightarrow> None)"

subsection \<open>std::regex_search with the number pattern\<close>

text \<open>
  The pattern is \<^verbatim>\<open>[+-]?[0-9]+(\.[0-9]*)?([eE][+-]?[0-9]+)?\<close>, matched the ECMAScript
  way: each piece takes as much as it can and gives back only when what follows fails.
  Consecutive pieces start with different characters, so at a given start the match is:
  a sign if there is one, all the digits (at least one, else no match at this start: a
  sign given back leaves a non-digit first), a dot with all the digits after it if a dot
  follows, and an exponent if its digits are there.
\<close>

definition opt_sign :: "string \<Rightarrow> string" where
  "opt_sign s = (case s of [] \<Rightarrow> [] | c # r \<Rightarrow> if c = CHR ''+'' \<or> c = CHR ''-'' then [c] else [])"

definition opt_frac :: "string \<Rightarrow> string" where
  "opt_frac s = (case s of [] \<Rightarrow> [] | c # r \<Rightarrow> if c = CHR ''.'' then c # takeWhile is_digit r else [])"

definition opt_exp :: "string \<Rightarrow> string" where
  "opt_exp s =
     (case s of [] \<Rightarrow> []
      | c # r \<Rightarrow>
          if c = CHR ''e'' \<or> c = CHR ''E''
          then (let sg = opt_sign r; ds = takeWhile is_digit (drop (length sg) r)
                in if ds = [] then [] else c # sg @ ds)
          else [])"

definition num_re_match_at :: "string \<Rightarrow> string option" where
  "num_re_match_at s =
     (let sg = opt_sign s;
          r1 = drop (length sg) s;
          ds = takeWhile is_digit r1
      in if ds = [] then None
         else (let r2 = drop (length ds) r1;
                   fr = opt_frac r2;
                   ex = opt_exp (drop (length fr) r2)
               in Some (sg @ ds @ fr @ ex)))"

text \<open>
  \<^verbatim>\<open>std::regex_search\<close> is not anchored: it tries every start from the first
  character on and returns the first match; \<^verbatim>\<open>match.str()\<close> is the matched text.
\<close>

fun regex_search :: "string \<Rightarrow> string option" where
  "regex_search [] = None"
| "regex_search (c # cs) =
     (case num_re_match_at (c # cs) of Some m \<Rightarrow> Some m | None \<Rightarrow> regex_search cs)"

subsection \<open>std::string_view\<close>

text \<open>
  \<^verbatim>\<open>find_first_not_of(const char* s)\<close> takes its character set as a C string, which
  ends at the first NUL. The result is the index of the first character of the view that
  is not in the set, \<^verbatim>\<open>npos\<close> (\<open>None\<close>) if there is none.
\<close>

definition c_str :: "string \<Rightarrow> string" where
  "c_str lit = takeWhile (\<lambda>c. c \<noteq> NUL) lit"

definition find_first_not_of :: "string \<Rightarrow> string \<Rightarrow> nat option" where
  "find_first_not_of json s =
     (let n = length (takeWhile (\<lambda>c. c \<in> set (c_str s)) json)
      in if n < length json then Some n else None)"

text \<open>The literal \<^verbatim>\<open>" \n\r\t\v\f\0"\<close> of the source, as the array of characters it is.\<close>

definition ws_literal :: string where
  "ws_literal = [CHR '' '', LF, CR, TAB, VT, FF, NUL]"

section \<open>unescaped_char\<close>

definition unescaped_char :: "char \<Rightarrow> char" where
  "unescaped_char c =
     (if c = CHR ''n'' then LF
      else if c = CHR ''r'' then CR
      else if c = CHR ''0'' then NUL
      else if c = CHR ''t'' then TAB
      else if c = CHR ''v'' then VT
      else if c = CHR ''f'' then FF
      else if c = CHR ''b'' then BS
      else if c = CHR ''a'' then BEL
      else c)"

section \<open>parse\<close>

text \<open>
  What the source can do besides returning a pair: \<^verbatim>\<open>json[i]\<close> with
  \<^verbatim>\<open>i >= json.size()\<close> reads outside the view (undefined behaviour), and
  \<^verbatim>\<open>json.substr(i)\<close> with \<^verbatim>\<open>i > json.size()\<close> throws \<^verbatim>\<open>std::out_of_range\<close>.
\<close>

datatype error = OutOfBoundsRead | OutOfRangeThrown

type_synonym 'd parsed = "error + ('d JSONObject \<times> nat)"

text \<open>The scanner of the string branch: the \<^verbatim>\<open>for\<close> loop over \<^verbatim>\<open>i\<close>, \<^verbatim>\<open>phase\<close> and \<^verbatim>\<open>str\<close>.\<close>

datatype phase = Raw | Escaped

function str_loop :: "string \<Rightarrow> nat \<Rightarrow> phase \<Rightarrow> string \<Rightarrow> string \<times> nat" where
  "str_loop json i ph str =
     (if i < length json then
        (let ch = json ! i in
         if ph = Raw then
           (if ch = BSLASH then str_loop json (i + 1) Escaped str
            else if ch = DQUOTE then (str, i + 1)
            else str_loop json (i + 1) Raw (str @ [ch]))
         else str_loop json (i + 1) Raw (str @ [unescaped_char ch]))
      else (str, i))"
  by pat_completeness auto
termination
  by (relation "measure (\<lambda>(json, i, ph, str). length json - i)") auto

declare str_loop.simps [simp del]

text \<open>\<^verbatim>\<open>res.try_emplace(key, val)\<close>: inserts only where the key is absent.\<close>

definition try_emplace :: "string \<Rightarrow> 'v \<Rightarrow> (string, 'v) fmap \<Rightarrow> (string, 'v) fmap" where
  "try_emplace key val res = (if key |\<in>| fmdom res then res else fmupd key val res)"

text \<open>
  \<open>parse\<close> with the loops of its array and object branches; \<open>fcd\<close> is
  \<^verbatim>\<open>std::from_chars\<close> for \<^verbatim>\<open>double\<close>. Both loops start at \<open>i = 1\<close>.
\<close>

function parse :: "'d from_chars \<Rightarrow> string \<Rightarrow> 'd parsed"
  and arr_loop :: "'d from_chars \<Rightarrow> string \<Rightarrow> nat \<Rightarrow> 'd JSONObject list \<Rightarrow> 'd parsed"
  and obj_loop :: "'d from_chars \<Rightarrow> string \<Rightarrow> nat \<Rightarrow> (string, 'd JSONObject) fmap \<Rightarrow> 'd parsed"
where
  "parse fcd json =
     (if json = [] then Inr (JNull, 0)
      else
        (let off = find_first_not_of json ws_literal in
         if off \<noteq> Some 0 \<and> off \<noteq> None then
           (case parse fcd (drop (the off) json) of
              Inl e \<Rightarrow> Inl e
            | Inr (obj, eaten) \<Rightarrow> Inr (obj, eaten + the off))
         else if json ! 0 = CHR ''t'' \<or> json ! 0 = CHR ''f'' then
           (if json ! 0 = CHR ''t'' then Inr (JBool True, 4)
            else if json ! 0 = CHR ''f'' then Inr (JBool False, 5)
            else Inr (JNull, 0))
         else if is_digit (json ! 0) \<or> json ! 0 = CHR ''+'' \<or> json ! 0 = CHR ''-'' then
           (case regex_search json of
              None \<Rightarrow> Inr (JNull, 0)
            | Some str \<Rightarrow>
                (case try_parse_num from_chars_int str of
                   Some num \<Rightarrow> Inr (JInt num, length str)
                 | None \<Rightarrow>
                     (case try_parse_num fcd str of
                        Some num \<Rightarrow> Inr (JDouble num, length str)
                      | None \<Rightarrow> Inr (JNull, 0))))
         else if json ! 0 = DQUOTE then
           (case str_loop json 1 Raw [] of (str, i) \<Rightarrow> Inr (JString str, i))
         else if json ! 0 = CHR ''['' then arr_loop fcd json 1 []
         else if json ! 0 = CHR ''{'' then obj_loop fcd json 1 fmempty
         else Inr (JNull, 0)))"
| "arr_loop fcd json i res =
     (if i < length json then
        (if json ! i = CHR '']'' then Inr (JList res, i + 1)
         else
           (case parse fcd (drop i json) of
              Inl e \<Rightarrow> Inl e
            | Inr (obj, eaten) \<Rightarrow>
                if eaten = 0 then Inr (JList res, 0)
                else if i + eaten < length json then
                  (if json ! (i + eaten) = CHR '','' then arr_loop fcd json (i + eaten + 1) (res @ [obj])
                   else arr_loop fcd json (i + eaten) (res @ [obj]))
                else Inl OutOfBoundsRead))
      else Inr (JList res, i))"
| "obj_loop fcd json i res =
     (if i < length json then
        (if json ! i = CHR ''}'' then Inr (JDict res, i + 1)
         else
           (case parse fcd (drop i json) of
              Inl e \<Rightarrow> Inl e
            | Inr (keyobj, keyeaten) \<Rightarrow>
                if keyeaten = 0 then Inr (JDict res, 0)
                else
                  (case keyobj of
                     JString key \<Rightarrow>
                       if i + keyeaten < length json then
                         (let i2 = (if json ! (i + keyeaten) = CHR '':'' then i + keyeaten + 1
                                    else i + keyeaten)
                          in if i2 \<le> length json then
                               (case parse fcd (drop i2 json) of
                                  Inl e \<Rightarrow> Inl e
                                | Inr (valobj, valeaten) \<Rightarrow>
                                    if valeaten = 0 then Inr (JDict res, 0)
                                    else if i2 + valeaten < length json then
                                      (if json ! (i2 + valeaten) = CHR '','' then
                                         obj_loop fcd json (i2 + valeaten + 1) (try_emplace key valobj res)
                                       else obj_loop fcd json (i2 + valeaten) (try_emplace key valobj res))
                                    else Inl OutOfBoundsRead)
                             else Inl OutOfRangeThrown)
                       else Inl OutOfBoundsRead
                   | _ \<Rightarrow> Inr (JDict res, 0))))
      else Inr (JDict res, i))"
  by pat_completeness auto

text \<open>
  Termination: a call of \<open>parse\<close> from a loop is on a strictly shorter text (the loop
  has \<open>0 < i < length json\<close>), a loop's next round has a larger \<open>i\<close> (the round
  goes on only when \<open>eaten\<close> is not 0), and \<open>parse\<close> enters a loop at \<open>i = 1\<close>.
  A loop started at \<open>i = 0\<close>, which \<open>parse\<close> never does, ranks above \<open>parse\<close> on
  the same text.
\<close>

termination
  by (relation "inv_image (less_than <*lex*> less_than <*lex*> less_than)
     (\<lambda>x. case x of
        Inl (fcd, json) \<Rightarrow> (length json, 1::nat, 0::nat)
      | Inr (Inl (fcd, json, i, res)) \<Rightarrow> (length json, if i = 0 then 2 else 0, length json - i)
      | Inr (Inr (fcd, json, i, res)) \<Rightarrow> (length json, if i = 0 then 2 else 0, length json - i))")
    auto

declare parse.simps [simp del] arr_loop.simps [simp del] obj_loop.simps [simp del]

text \<open>
  A conversion that accepts no text, for closed statements on inputs without a
  floating-point literal, where \<open>parse\<close> never asks the parameter for a value.
\<close>

definition no_double :: "unit from_chars" where
  "no_double s = (Inl invalid_argument, 0)"

section \<open>The spec's reading of the string scanner\<close>

text \<open>
  Two definitions that follow the spec's description of the string branch (section 4.4,
  rule 5), by recursion over the characters after the opening quote; \<open>str_loop\<close> above
  is the source's loop. \<open>spec_closing_quote ph cs\<close> says that scanning \<open>cs\<close> from
  state \<open>ph\<close> meets a quote in the \<open>Raw\<close> state; \<open>spec_resolved ph cs\<close> is the
  text accumulated over all of \<open>cs\<close>, escapes resolved (a backslash that ends the input
  adds nothing).
\<close>

fun spec_closing_quote :: "phase \<Rightarrow> string \<Rightarrow> bool" where
  "spec_closing_quote ph [] = False"
| "spec_closing_quote Raw (c # cs) =
     (if c = BSLASH then spec_closing_quote Escaped cs
      else if c = DQUOTE then True
      else spec_closing_quote Raw cs)"
| "spec_closing_quote Escaped (c # cs) = spec_closing_quote Raw cs"

fun spec_resolved :: "phase \<Rightarrow> string \<Rightarrow> string" where
  "spec_resolved ph [] = []"
| "spec_resolved Raw (c # cs) =
     (if c = BSLASH then spec_resolved Escaped cs else c # spec_resolved Raw cs)"
| "spec_resolved Escaped (c # cs) = unescaped_char c # spec_resolved Raw cs"

section \<open>Evaluation and helper lemmas\<close>

lemmas ctrl_defs = NUL_def BEL_def BS_def TAB_def LF_def VT_def FF_def CR_def
  DQUOTE_def BSLASH_def

lemmas eval_defs = parse.simps arr_loop.simps obj_loop.simps str_loop.simps
  find_first_not_of_def ws_literal_def c_str_def ctrl_defs is_digit_def
  num_re_match_at_def opt_sign_def opt_frac_def opt_exp_def try_parse_num_def
  from_chars_int_def digits_val_def try_emplace_def unescaped_char_def Let_def

lemmas first_char_defs = parse.simps [of _ "_ # _"] find_first_not_of_def ws_literal_def
  c_str_def ctrl_defs is_digit_def

text \<open>
  The scanner on an input without a closing quote: it runs to the end of the input and
  returns everything it resolved on the way.
\<close>

lemma str_loop_unterminated:
  "i \<le> length json \<Longrightarrow> \<not> spec_closing_quote ph (drop i json) \<Longrightarrow>
   str_loop json i ph str = (str @ spec_resolved ph (drop i json), length json)"
proof (induction json i ph str rule: str_loop.induct)
  case (1 json i ph str)
  show ?case
  proof (cases "i < length json")
    case False
    with "1.prems" show ?thesis by (simp add: str_loop.simps)
  next
    case True
    then have d: "drop i json = json ! i # drop (i + 1) json"
      by (simp add: Cons_nth_drop_Suc)
    show ?thesis
    proof (cases ph)
      case Raw
      with True d "1.prems" "1.IH"(1,2) show ?thesis
        by (subst str_loop.simps) (auto simp: Let_def split: if_splits)
    next
      case Escaped
      with True d "1.prems" "1.IH"(3) show ?thesis
        by (subst str_loop.simps) (auto simp: Let_def split: if_splits)
    qed
  qed
qed

lemma try_emplace_lookup:
  "fmlookup res k = Some x \<Longrightarrow> fmlookup (try_emplace key val res) k = Some x"
  by (auto simp: try_emplace_def dest: fmdom_notD)

text \<open>
  An entry of the accumulator of the object loop is still there, with the same value,
  in whatever the loop returns: every later round goes through \<open>try_emplace\<close>.
\<close>

lemma obj_loop_keeps:
  "obj_loop fcd json i res = Inr (v, n) \<Longrightarrow> fmlookup res k = Some x \<Longrightarrow>
   \<exists>d. v = JDict d \<and> fmlookup d k = Some x"
proof (induction "length json - i" arbitrary: i res rule: less_induct)
  case less
  have step: "\<exists>d. v = JDict d \<and> fmlookup d k = Some x"
    if "i < length json" "i < i'"
      and r: "obj_loop fcd json i' (try_emplace key val res) = Inr (v, n)"
    for i' key val
  proof -
    from that(1,2) have "length json - i' < length json - i" by arith
    from less.hyps [OF this r try_emplace_lookup [OF less.prems(2)]] show ?thesis .
  qed
  from less.prems show ?case
    apply (subst (asm) obj_loop.simps)
    apply (auto simp: Let_def split: if_splits sum.splits prod.splits JSONObject.splits)
       apply (erule step [rotated 2]; simp)+
    done
qed

lemma try_emplace_lookup_eq:
  "fmlookup (try_emplace key val res) k =
     (if k = key \<and> key |\<notin>| fmdom res then Some val else fmlookup res k)"
  by (simp add: try_emplace_def)

lemma try_emplace_dom: "fmdom (try_emplace key val res) = finsert key (fmdom res)"
  by (auto simp: try_emplace_def)

text \<open>
  A round of the object loop that parses a key and a value: the key, the colon if there
  is one, the value and the comma if there is one are consumed, and the loop goes on
  with the pair handed to \<open>try_emplace\<close>.
\<close>

lemma obj_loop_round:
  assumes "i < length json" "json ! i \<noteq> CHR ''}''"
    and "parse fcd (drop i json) = Inr (JString key, keyeaten)" "keyeaten \<noteq> 0"
    and "i + keyeaten < length json"
    and "j = (if json ! (i + keyeaten) = CHR '':'' then i + keyeaten + 1 else i + keyeaten)"
    and "parse fcd (drop j json) = Inr (valobj, valeaten)" "valeaten \<noteq> 0"
    and "j + valeaten < length json"
  shows "obj_loop fcd json i res =
         obj_loop fcd json (if json ! (j + valeaten) = CHR '','' then j + valeaten + 1 else j + valeaten)
           (try_emplace key valobj res)"
  using assms
  by (subst obj_loop.simps) (auto simp: Let_def)

text \<open>
  What the returned dictionary holds for the key of a round: the value the accumulator
  had for it, and the value of this round if the accumulator had none.
\<close>

lemma obj_loop_round_result:
  assumes "i < length json" "json ! i \<noteq> CHR ''}''"
    and "parse fcd (drop i json) = Inr (JString key, keyeaten)" "keyeaten \<noteq> 0"
    and "i + keyeaten < length json"
    and "j = (if json ! (i + keyeaten) = CHR '':'' then i + keyeaten + 1 else i + keyeaten)"
    and "parse fcd (drop j json) = Inr (valobj, valeaten)" "valeaten \<noteq> 0"
    and "j + valeaten < length json"
    and r: "obj_loop fcd json i res = Inr (JDict d, n)"
  shows "fmlookup d key = (case fmlookup res key of Some x \<Rightarrow> Some x | None \<Rightarrow> Some valobj)"
proof -
  let ?i' = "if json ! (j + valeaten) = CHR '','' then j + valeaten + 1 else j + valeaten"
  have e: "obj_loop fcd json ?i' (try_emplace key valobj res) = Inr (JDict d, n)"
    using obj_loop_round [OF assms(1-9), of res] r by simp
  have "fmlookup (try_emplace key valobj res) key =
        Some (case fmlookup res key of Some x \<Rightarrow> x | None \<Rightarrow> valobj)"
    by (auto simp: try_emplace_lookup_eq fmlookup_dom_iff split: option.splits)
  from obj_loop_keeps [OF e this] show ?thesis
    by (auto split: option.splits)
qed

section \<open>The claims\<close>

text \<open>
  C1. The claim: a nested element that reports zero consumed length fails the whole
  parse with consumed length 0, and \<^verbatim>\<open>parse("[1, , 3]")\<close> returns \<^verbatim>\<open>(List, 0)\<close>.
  What the source does on that input: the second element is parsed from \<^verbatim>\<open>" , 3]"\<close>;
  after the blank, \<^verbatim>\<open>", 3]"\<close> matches no branch and reports length 0, but the
  whitespace branch returns \<^verbatim>\<open>eaten + off\<close> without looking at \<^verbatim>\<open>eaten\<close>, so the
  array loop sees length 1, appends the null value and goes on. The parse returns a
  three-element list and the full length 8. The same branch in front of a failed array:
  \<^verbatim>\<open>[,]\<close> fails with length 0, and with a blank before it the top-level parse
  returns length 1.
\<close>

theorem parse_array_gap_not_failed:
  "parse fcd '', 3]'' = Inr (JNull, 0)
   \<and> parse fcd '' , 3]'' = Inr (JNull, 1)
   \<and> parse fcd ''[1, , 3]'' = Inr (JList [JInt 1, JNull, JInt 3], 8)
   \<and> parse fcd ''[,]'' = Inr (JList [], 0)
   \<and> parse fcd '' [,]'' = Inr (JList [], 1)"
  by (simp add: eval_defs)

text \<open>
  C2. The claim: every character access of \<open>parse\<close> is within the input. On the
  two-character input \<^verbatim>\<open>[1\<close> the element \<^verbatim>\<open>1\<close> is consumed, \<^verbatim>\<open>i\<close> becomes 2, the
  size of the view, and the comma test reads \<^verbatim>\<open>json[2]\<close>. On \<^verbatim>\<open>[t\<close> the boolean
  branch reports 4 characters, \<^verbatim>\<open>i\<close> becomes 5 and the same test reads \<^verbatim>\<open>json[5]\<close>.
  After the key of \<^verbatim>\<open>{"a"\<close> the colon test reads \<^verbatim>\<open>json[4]\<close>.
\<close>

theorem parse_reads_past_the_input:
  \<open>parse fcd ''[1'' = Inl OutOfBoundsRead
   \<and> parse fcd ''[t'' = Inl OutOfBoundsRead
   \<and> parse fcd ''{"a"'' = Inl OutOfBoundsRead\<close>
  by (simp add: eval_defs)

text \<open>
  C3. The claim: on a first character that is a digit or a sign, the number branch
  matches the longest prefix of the input that fits the number grammar, and consumes
  that prefix. On \<^verbatim>\<open>-x5\<close> no prefix fits the grammar (no match at the first
  character), \<^verbatim>\<open>std::regex_search\<close> goes on and matches \<^verbatim>\<open>5\<close> at offset 2, and
  \<open>parse\<close> returns the integer 5 with consumed length 1, the length of a match that is
  not at the current position.
\<close>

theorem parse_number_match_not_a_prefix:
  "num_re_match_at ''-x5'' = None
   \<and> regex_search ''-x5'' = Some ''5''
   \<and> parse fcd ''-x5'' = Inr (JInt 5, 1)"
  by (simp add: eval_defs)

text \<open>
  C4. The input of \<^verbatim>\<open>main\<close>, \<^verbatim>\<open>{"math": true, "english": "good\n"}\<close> with a
  backslash and an \<^verbatim>\<open>n\<close> before the last quote, has 35 characters. \<open>parse\<close> returns
  the dictionary with \<^verbatim>\<open>math\<close> bound to true and \<^verbatim>\<open>english\<close> bound to
  \<^verbatim>\<open>good\<close> followed by a newline, and consumed length 35, the whole input.
  The consumed length is not 38, and neither is the length of the input.
\<close>

theorem parse_main_input_not_38:
  \<open>parse no_double (''{"math": true, "english": "good'' @ [CHR 0x5C] @ ''n"}'')
     \<noteq> Inr (JDict (fmupd ''english'' (JString (''good'' @ [CHR 0x0A]))
                   (fmupd ''math'' (JBool True) fmempty)), 38)
   \<and> length (''{"math": true, "english": "good'' @ [CHR 0x5C] @ ''n"}'') \<noteq> 38\<close>
  by (simp add: eval_defs)

text \<open>C4, as amended: the same value, with consumed length 35, the length of the input.\<close>

theorem parse_main_input:
  \<open>parse fcd (''{"math": true, "english": "good'' @ [CHR 0x5C] @ ''n"}'')
     = Inr (JDict (fmupd ''english'' (JString (''good'' @ [CHR 0x0A]))
                   (fmupd ''math'' (JBool True) fmempty)), 35)
   \<and> length (''{"math": true, "english": "good'' @ [CHR 0x5C] @ ''n"}'') = 35\<close>
  by (simp add: eval_defs)

text \<open>
  C5. The claim: a leading NUL is skipped like a blank. The character set handed to
  \<^verbatim>\<open>find_first_not_of\<close> is a C string, so it ends before the NUL written in the
  literal and holds six characters. On the input NUL, \<^verbatim>\<open>1\<close> the offset found is 0,
  nothing is skipped, no branch takes a NUL, and \<open>parse\<close> returns null with length 0.
\<close>

theorem parse_leading_NUL_not_skipped:
  "c_str ws_literal = [CHR '' '', CHR 0x0A, CHR 0x0D, CHR 0x09, CHR 0x0B, CHR 0x0C]
   \<and> find_first_not_of [CHR 0x00, CHR ''1''] ws_literal = Some 0
   \<and> parse fcd [CHR 0x00, CHR ''1''] = Inr (JNull, 0)"
  by (simp add: eval_defs)

text \<open>
  C6. First occurrence wins. A dictionary is a finite map, as the source's
  \<^verbatim>\<open>unordered_map\<close> is: one entry per key.
  \<^item> \<^verbatim>\<open>try_emplace\<close> on a key that is present changes nothing; on a key that is
    absent it stores the value and changes no other entry; either way the keys are the
    old keys and this one.
  \<^item> \<open>parse\<close> on an opening brace is the object loop from \<open>i = 1\<close> on the empty
    dictionary.
  \<^item> A round of the loop that parses a key and a value, seen before or not, consumes the
    pair (key, optional colon, value, optional comma) and goes on with the pair handed to
    \<^verbatim>\<open>try_emplace\<close>; in the dictionary the loop returns, the key is bound to the
    value the accumulator already had for it, and to the value of this round if it had
    none. So the first occurrence of a key is stored and a later one is consumed and
    dropped.
  \<^item> An entry that the loop holds at some round is in the dictionary it returns, with
    the value it had.
  \<^item> \<^verbatim>\<open>parse("{\"a\":1,\"a\":2}")\<close> returns the dictionary with \<^verbatim>\<open>a\<close> bound to 1
    and consumed length 13, the whole input; \<^verbatim>\<open>{"a":1,"b":2,"b":3}\<close> gives \<^verbatim>\<open>a\<close>
    bound to 1 and \<^verbatim>\<open>b\<close> bound to 2, with consumed length 19.
\<close>

theorem dict_first_occurrence_wins:
  \<open>(ky |\<in>| fmdom rs \<longrightarrow> try_emplace ky vl rs = rs)
   \<and> fmlookup (try_emplace ky vl rs) q =
        (if q = ky \<and> ky |\<notin>| fmdom rs then Some vl else fmlookup rs q)
   \<and> fmdom (try_emplace ky vl rs) = finsert ky (fmdom rs)
   \<and> parse fcd (CHR ''{'' # rest) = obj_loop fcd (CHR ''{'' # rest) 1 fmempty
   \<and> (i < length json \<and> json ! i \<noteq> CHR ''}''
       \<and> parse fcd (drop i json) = Inr (JString key, keyeaten) \<and> keyeaten \<noteq> 0
       \<and> i + keyeaten < length json
       \<and> j = (if json ! (i + keyeaten) = CHR '':'' then i + keyeaten + 1 else i + keyeaten)
       \<and> parse fcd (drop j json) = Inr (val, valeaten) \<and> valeaten \<noteq> 0
       \<and> j + valeaten < length json
      \<longrightarrow> obj_loop fcd json i res =
            obj_loop fcd json (if json ! (j + valeaten) = CHR '','' then j + valeaten + 1
                               else j + valeaten) (try_emplace key val res)
          \<and> (obj_loop fcd json i res = Inr (JDict d, n) \<longrightarrow>
               fmlookup d key = (case fmlookup res key of Some x \<Rightarrow> Some x | None \<Rightarrow> Some val)))
   \<and> (obj_loop fcd js m acc = Inr (JDict dd, nn) \<and> fmlookup acc k = Some x
        \<longrightarrow> fmlookup dd k = Some x)
   \<and> parse fcd ''{"a":1,"a":2}'' = Inr (JDict (fmupd ''a'' (JInt 1) fmempty), 13)
   \<and> length ''{"a":1,"a":2}'' = 13
   \<and> parse fcd ''{"a":1,"b":2,"b":3}''
       = Inr (JDict (fmupd ''b'' (JInt 2) (fmupd ''a'' (JInt 1) fmempty)), 19)
   \<and> length ''{"a":1,"b":2,"b":3}'' = 19\<close>
proof (intro conjI)
  show "ky |\<in>| fmdom rs \<longrightarrow> try_emplace ky vl rs = rs"
    by (simp add: try_emplace_def)
  show "fmlookup (try_emplace ky vl rs) q =
        (if q = ky \<and> ky |\<notin>| fmdom rs then Some vl else fmlookup rs q)"
    by (rule try_emplace_lookup_eq)
  show "fmdom (try_emplace ky vl rs) = finsert ky (fmdom rs)"
    by (rule try_emplace_dom)
  show "parse fcd (CHR ''{'' # rest) = obj_loop fcd (CHR ''{'' # rest) 1 fmempty"
    by (simp add: first_char_defs)
  show "obj_loop fcd js m acc = Inr (JDict dd, nn) \<and> fmlookup acc k = Some x
        \<longrightarrow> fmlookup dd k = Some x"
    using obj_loop_keeps [of fcd js m acc "JDict dd" nn k x] by simp
  show \<open>parse fcd ''{"a":1,"a":2}'' = Inr (JDict (fmupd ''a'' (JInt 1) fmempty), 13)\<close>
    by (simp add: eval_defs)
  show \<open>length ''{"a":1,"a":2}'' = 13\<close>
    by simp
  show \<open>parse fcd ''{"a":1,"b":2,"b":3}''
       = Inr (JDict (fmupd ''b'' (JInt 2) (fmupd ''a'' (JInt 1) fmempty)), 19)\<close>
    by (simp add: eval_defs)
  show \<open>length ''{"a":1,"b":2,"b":3}'' = 19\<close>
    by simp
qed (intro impI conjI; elim conjE; (rule obj_loop_round | rule obj_loop_round_result); assumption)

theorem dict_first_occurrence_wins_witness:
  \<open>''a'' |\<in>| fmdom (fmupd ''a'' (JInt 1 :: unit JSONObject) fmempty)
   \<and> try_emplace ''a'' (JInt 2 :: unit JSONObject) (fmupd ''a'' (JInt 1) fmempty)
       = fmupd ''a'' (JInt 1) fmempty
   \<and> 7 < length ''{"a":1,"b":2,"b":3}''
   \<and> ''{"a":1,"b":2,"b":3}'' ! 7 \<noteq> CHR ''}''
   \<and> parse no_double (drop 7 ''{"a":1,"b":2,"b":3}'') = Inr (JString ''b'', 3)
   \<and> ''{"a":1,"b":2,"b":3}'' ! (7 + 3) = CHR '':''
   \<and> parse no_double (drop 11 ''{"a":1,"b":2,"b":3}'') = Inr (JInt 2, 1)
   \<and> 11 + 1 < length ''{"a":1,"b":2,"b":3}''
   \<and> ''b'' |\<notin>| fmdom (fmupd ''a'' (JInt 1 :: unit JSONObject) fmempty)
   \<and> obj_loop no_double ''{"a":1,"b":2,"b":3}'' 7 (fmupd ''a'' (JInt 1) fmempty)
       = obj_loop no_double ''{"a":1,"b":2,"b":3}'' 13
           (fmupd ''b'' (JInt 2) (fmupd ''a'' (JInt 1) fmempty))
   \<and> obj_loop no_double ''{"a":1,"b":2,"b":3}'' 7 (fmupd ''a'' (JInt 1) fmempty)
       = Inr (JDict (fmupd ''b'' (JInt 2) (fmupd ''a'' (JInt 1) fmempty)), 19)
   \<and> fmlookup (fmupd ''b'' (JInt 2 :: unit JSONObject) (fmupd ''a'' (JInt 1) fmempty)) ''b''
       = Some (JInt 2)
   \<and> fmlookup (fmupd ''b'' (JInt 2 :: unit JSONObject) (fmupd ''a'' (JInt 1) fmempty)) ''a''
       = Some (JInt 1)
   \<and> 13 < length ''{"a":1,"b":2,"b":3}''
   \<and> ''{"a":1,"b":2,"b":3}'' ! 13 \<noteq> CHR ''}''
   \<and> parse no_double (drop 13 ''{"a":1,"b":2,"b":3}'') = Inr (JString ''b'', 3)
   \<and> ''{"a":1,"b":2,"b":3}'' ! (13 + 3) = CHR '':''
   \<and> parse no_double (drop 17 ''{"a":1,"b":2,"b":3}'') = Inr (JInt 3, 1)
   \<and> 17 + 1 < length ''{"a":1,"b":2,"b":3}''
   \<and> ''b'' |\<in>| fmdom (fmupd ''b'' (JInt 2 :: unit JSONObject) (fmupd ''a'' (JInt 1) fmempty))
   \<and> obj_loop no_double ''{"a":1,"b":2,"b":3}'' 13
         (fmupd ''b'' (JInt 2) (fmupd ''a'' (JInt 1) fmempty))
       = obj_loop no_double ''{"a":1,"b":2,"b":3}'' 18
           (fmupd ''b'' (JInt 2) (fmupd ''a'' (JInt 1) fmempty))
   \<and> obj_loop no_double ''{"a":1,"b":2,"b":3}'' 13
         (fmupd ''b'' (JInt 2) (fmupd ''a'' (JInt 1) fmempty))
       = Inr (JDict (fmupd ''b'' (JInt 2) (fmupd ''a'' (JInt 1) fmempty)), 19)\<close>
  using dict_first_occurrence_wins
    [where ky = "''a''" and vl = "JInt 2" and rs = "fmupd ''a'' (JInt 1) fmempty"
       and q = "''a''" and rest = "''}''"
       and fcd = no_double and json = \<open>''{"a":1,"b":2,"b":3}''\<close> and i = 7
       and res = "fmupd ''a'' (JInt 1) fmempty"
       and key = "''b''" and keyeaten = 3 and j = 11 and val = "JInt 2" and valeaten = 1
       and d = "fmupd ''b'' (JInt 2) (fmupd ''a'' (JInt 1) fmempty)" and n = 19
       and js = \<open>''{"a":1,"b":2,"b":3}''\<close> and m = 7
       and acc = "fmupd ''a'' (JInt 1) fmempty"
       and dd = "fmupd ''b'' (JInt 2) (fmupd ''a'' (JInt 1) fmempty)" and nn = 19
       and k = "''a''" and x = "JInt 1"]
    dict_first_occurrence_wins
    [where ky = "''a''" and vl = "JInt 2" and rs = "fmupd ''a'' (JInt 1) fmempty"
       and q = "''a''" and rest = "''}''"
       and fcd = no_double and json = \<open>''{"a":1,"b":2,"b":3}''\<close> and i = 13
       and res = "fmupd ''b'' (JInt 2) (fmupd ''a'' (JInt 1) fmempty)"
       and key = "''b''" and keyeaten = 3 and j = 17 and val = "JInt 3" and valeaten = 1
       and d = "fmupd ''b'' (JInt 2) (fmupd ''a'' (JInt 1) fmempty)" and n = 19
       and js = \<open>''{"a":1,"b":2,"b":3}''\<close> and m = 13
       and acc = "fmupd ''b'' (JInt 2) (fmupd ''a'' (JInt 1) fmempty)"
       and dd = "fmupd ''b'' (JInt 2) (fmupd ''a'' (JInt 1) fmempty)" and nn = 19
       and k = "''b''" and x = "JInt 2"]
  by (simp add: eval_defs)

text \<open>
  C7. An input whose first character is \<^verbatim>\<open>t\<close> parses to true with consumed length
  4, and one whose first character is \<^verbatim>\<open>f\<close> to false with consumed length 5,
  whatever follows; \<^verbatim>\<open>truefoo\<close> parses to true with consumed length 4.
\<close>

theorem parse_bool_unverified:
  "parse fcd (CHR ''t'' # rest) = Inr (JBool True, 4)
   \<and> parse fcd (CHR ''f'' # rest) = Inr (JBool False, 5)
   \<and> parse fcd ''truefoo'' = Inr (JBool True, 4)"
  by (simp add: first_char_defs)

text \<open>
  C8. An input that opens with a quote and has no closing quote (none met in the
  \<open>Raw\<close> state) parses to the text accumulated over the whole input, escapes
  resolved, and its consumed length is the length of the input, which is not 0.
\<close>

theorem parse_unterminated_string:
  "\<not> spec_closing_quote Raw rest \<Longrightarrow>
   parse fcd (CHR 0x22 # rest) = Inr (JString (spec_resolved Raw rest), length (CHR 0x22 # rest))
   \<and> 0 < length (CHR 0x22 # rest)"
  using str_loop_unterminated [of 1 "DQUOTE # rest" Raw "[]"]
  by (simp add: first_char_defs)

theorem parse_unterminated_string_witness:
  "\<not> spec_closing_quote Raw (''ab'' @ [CHR 0x5C] @ ''nc'' @ [CHR 0x5C])
   \<and> parse no_double ([CHR 0x22] @ ''ab'' @ [CHR 0x5C] @ ''nc'' @ [CHR 0x5C])
       = Inr (JString (''ab'' @ [CHR 0x0A] @ ''c''), 7)"
  using parse_unterminated_string [of "''ab'' @ [CHR 0x5C] @ ''nc'' @ [CHR 0x5C]" no_double]
  by (simp add: ctrl_defs unescaped_char_def)

text \<open>
  C9. \<open>unescaped_char\<close> maps \<^verbatim>\<open>n r 0 t v f b a\<close> to newline, carriage return, NUL,
  tab, vertical tab, form feed, backspace and bell, and every other character to itself,
  among them the quote, the backslash and the slash; the six-character input
  quote, \<^verbatim>\<open>a\<close>, backslash, \<^verbatim>\<open>t\<close>, \<^verbatim>\<open>b\<close>, quote parses to the text \<^verbatim>\<open>a\<close>, tab,
  \<^verbatim>\<open>b\<close> with consumed length 6.
\<close>

theorem unescaped_char_table:
  \<open>unescaped_char (CHR ''n'') = CHR 0x0A
   \<and> unescaped_char (CHR ''r'') = CHR 0x0D
   \<and> unescaped_char (CHR ''0'') = CHR 0x00
   \<and> unescaped_char (CHR ''t'') = CHR 0x09
   \<and> unescaped_char (CHR ''v'') = CHR 0x0B
   \<and> unescaped_char (CHR ''f'') = CHR 0x0C
   \<and> unescaped_char (CHR ''b'') = CHR 0x08
   \<and> unescaped_char (CHR ''a'') = CHR 0x07
   \<and> (c \<notin> set ''nr0tvfba'' \<longrightarrow> unescaped_char c = c)
   \<and> unescaped_char (CHR 0x22) = CHR 0x22
   \<and> unescaped_char (CHR 0x5C) = CHR 0x5C
   \<and> unescaped_char (CHR ''/'') = CHR ''/''
   \<and> parse fcd (''"a'' @ [CHR 0x5C] @ ''tb"'')
       = Inr (JString [CHR ''a'', CHR 0x09, CHR ''b''], 6)\<close>
  by (simp add: eval_defs)

theorem unescaped_char_table_witness:
  "CHR ''u'' \<notin> set ''nr0tvfba'' \<and> unescaped_char (CHR ''u'') = CHR ''u''"
  using unescaped_char_table [where c = "CHR ''u''" and fcd = no_double]
  by simp

text \<open>
  C10. The consumed length is not bounded by the length of the input: the
  one-character inputs \<^verbatim>\<open>t\<close> and \<^verbatim>\<open>f\<close> parse with consumed lengths 4 and 5.
\<close>

theorem parse_bool_consumed_exceeds_length:
  "parse fcd ''t'' = Inr (JBool True, 4) \<and> length ''t'' < 4
   \<and> parse fcd ''f'' = Inr (JBool False, 5) \<and> length ''f'' < 5"
  by (simp add: first_char_defs)

end
